theory Spec2Isabelle
  imports Complex_Main "HOL-Library.Sublist"
begin

section \<open>Python values and exceptions\<close>

text \<open>
  The values that flow through \<^verbatim>\<open>demo_tools.py\<close>: what \<^verbatim>\<open>json.loads\<close> can return
  (None, bool, int, float, str, list, dict with string keys) and, for the return value of
  the identification function, any other Python object, of which only the type name
  matters here (\<open>PObj\<close>: an object the JSON encoder has no encoding for, such as a set
  or a numpy scalar). A float is kept as the rational it denotes; no arithmetic is done
  on it. A dict is an association list in insertion order, read with \<open>map_of\<close>.
\<close>

datatype pyval =
    PNone
  | PBool bool
  | PInt int
  | PFloat rat
  | PStr string
  | PList "pyval list"
  | PDict "(string \<times> pyval) list"
  | PObj string

text \<open>
  An exception is its class and \<^verbatim>\<open>str(e)\<close>. The handlers of the source tell three
  kinds apart: \<^verbatim>\<open>KeyError\<close>, any other subclass of \<^verbatim>\<open>Exception\<close>, and the classes
  that derive from \<^verbatim>\<open>BaseException\<close> only (\<^verbatim>\<open>KeyboardInterrupt\<close>, \<^verbatim>\<open>SystemExit\<close>,
  \<^verbatim>\<open>GeneratorExit\<close>), which \<^verbatim>\<open>except Exception\<close> does not catch.
\<close>

datatype exc_class =
    KeyError
  | TypeError
  | JSONDecodeError
  | OtherException string
  | BaseOnly string

datatype exn = Exn exc_class string

fun exn_str :: "exn \<Rightarrow> string" where
  "exn_str (Exn c m) = m"

fun is_KeyError :: "exn \<Rightarrow> bool" where
  "is_KeyError (Exn KeyError m) = True"
| "is_KeyError (Exn c m) = False"

fun is_Exception :: "exn \<Rightarrow> bool" where
  "is_Exception (Exn (BaseOnly n) m) = False"
| "is_Exception (Exn c m) = True"

definition quote :: char where
  "quote = CHR 0x27"

text \<open>
  \<^verbatim>\<open>repr\<close> of a string that has no quote, backslash or control character, which is
  what \<^verbatim>\<open>str(KeyError(k))\<close> shows; the source only looks up three such keys.
\<close>

definition py_repr :: "string \<Rightarrow> string" where
  "py_repr k = quote # k @ [quote]"

fun type_name :: "pyval \<Rightarrow> string" where
  "type_name PNone = ''NoneType''"
| "type_name (PBool b) = ''bool''"
| "type_name (PInt i) = ''int''"
| "type_name (PFloat f) = ''float''"
| "type_name (PStr s) = ''str''"
| "type_name (PList xs) = ''list''"
| "type_name (PDict kvs) = ''dict''"
| "type_name (PObj t) = t"

text \<open>\<^verbatim>\<open>arguments[k]\<close> for a string key \<open>k\<close> (messages as CPython 3.11 and later words them).\<close>

fun getitem :: "pyval \<Rightarrow> string \<Rightarrow> exn + pyval" where
  "getitem (PDict kvs) k =
     (case map_of kvs k of
        Some v \<Rightarrow> Inr v
      | None \<Rightarrow> Inl (Exn KeyError (py_repr k)))"
| "getitem (PList xs) k =
     Inl (Exn TypeError ''list indices must be integers or slices, not str'')"
| "getitem (PStr s) k =
     Inl (Exn TypeError (''string indices must be integers, not '' @ py_repr ''str''))"
| "getitem v k =
     Inl (Exn TypeError (quote # type_name v @ quote # '' object is not subscriptable''))"

section \<open>The external collaborators\<close>

text \<open>
  One message of the outbound context (\<^verbatim>\<open>messages\<close>) or of the stored CLI history:
  a dict with \<^verbatim>\<open>role\<close> and \<^verbatim>\<open>content\<close>, and for the turns of a tool cycle
  \<^verbatim>\<open>tool_calls\<close> or \<^verbatim>\<open>tool_call_id\<close>. An absent \<^verbatim>\<open>tool_calls\<close> key is the empty list.
\<close>

datatype role = System | User | Assistant | Tool

record tool_call =
  call_id :: string
  call_name :: string
  call_arguments :: string

record turn =
  role :: role
  content :: "string option"
  tool_calls :: "tool_call list"
  tool_call_id :: "string option"

text \<open>\<^verbatim>\<open>response["choices"][0]["message"]\<close> of the generation engine.\<close>

record message =
  msg_content :: "string option"
  msg_tool_calls :: "tool_call list"

text \<open>
  What the source imports and calls but does not define: the generation engine
  (\<^verbatim>\<open>llm.create_chat_completion\<close>), \<^verbatim>\<open>tools.identify_material\<close>, \<^verbatim>\<open>json.loads\<close> and
  the text encoder behind \<^verbatim>\<open>json.dumps\<close>. The engine and the identification function
  may raise and may have effects: they read and return a world \<open>'w\<close>.
\<close>

record 'w env =
  llm_complete :: "'w \<Rightarrow> turn list \<Rightarrow> (exn + message) \<times> 'w"
  identify_material :: "'w \<Rightarrow> pyval \<Rightarrow> pyval \<Rightarrow> pyval \<Rightarrow> (exn + pyval) \<times> 'w"
  json_loads :: "string \<Rightarrow> exn + pyval"
  json_encode :: "pyval \<Rightarrow> string"

text \<open>
  \<^verbatim>\<open>json.dumps\<close> walks the value in order and raises \<^verbatim>\<open>TypeError\<close> at the first
  object it cannot encode; otherwise it returns the text.
\<close>

fun first_unserializable :: "pyval \<Rightarrow> string option"
  and first_unserializable_list :: "pyval list \<Rightarrow> string option"
  and first_unserializable_items :: "(string \<times> pyval) list \<Rightarrow> string option" where
  "first_unserializable (PObj t) = Some t"
| "first_unserializable (PList xs) = first_unserializable_list xs"
| "first_unserializable (PDict kvs) = first_unserializable_items kvs"
| "first_unserializable v = None"
| "first_unserializable_list [] = None"
| "first_unserializable_list (x # xs) =
     (case first_unserializable x of
        Some t \<Rightarrow> Some t
      | None \<Rightarrow> first_unserializable_list xs)"
| "first_unserializable_items [] = None"
| "first_unserializable_items (kv # kvs) =
     (case first_unserializable (snd kv) of
        Some t \<Rightarrow> Some t
      | None \<Rightarrow> first_unserializable_items kvs)"

definition json_dumps :: "'w env \<Rightarrow> pyval \<Rightarrow> exn + string" where
  "json_dumps env v =
     (case first_unserializable v of
        None \<Rightarrow> Inr (json_encode env v)
      | Some t \<Rightarrow> Inl (Exn TypeError (''Object of type '' @ t @ '' is not JSON serializable'')))"

section \<open>demo\_tools.py: the dispatcher\<close>

definition success_outcome :: "pyval \<Rightarrow> pyval" where
  "success_outcome result = PDict [(''success'', PBool True), (''result'', result)]"

definition failure_outcome :: "string \<Rightarrow> pyval" where
  "failure_outcome err = PDict [(''success'', PBool False), (''error'', PStr err)]"

text \<open>
  The body of the \<^verbatim>\<open>try\<close>: the three subscripts are evaluated left to right, then the
  call, then \<^verbatim>\<open>json.dumps\<close> of the success dict; the first exception ends it.
\<close>

definition try_body :: "'w env \<Rightarrow> pyval \<Rightarrow> 'w \<Rightarrow> (exn + string) \<times> 'w" where
  "try_body env arguments w =
     (case getitem arguments ''peak_1'' of
        Inl e \<Rightarrow> (Inl e, w)
      | Inr p1 \<Rightarrow>
     (case getitem arguments ''peak_2'' of
        Inl e \<Rightarrow> (Inl e, w)
      | Inr p2 \<Rightarrow>
     (case getitem arguments ''formation_energy'' of
        Inl e \<Rightarrow> (Inl e, w)
      | Inr fe \<Rightarrow>
     (case identify_material env w p1 p2 fe of
        (Inl e, w') \<Rightarrow> (Inl e, w')
      | (Inr result, w') \<Rightarrow> (json_dumps env (success_outcome result), w')))))"

definition execute_tool :: "'w env \<Rightarrow> string \<Rightarrow> pyval \<Rightarrow> 'w \<Rightarrow> (exn + string) \<times> 'w" where
  "execute_tool env tool_name arguments w =
     (if tool_name \<noteq> ''identify_material''
      then (json_dumps env (failure_outcome (''Unknown tool: '' @ tool_name)), w)
      else
        (case try_body env arguments w of
           (Inr s, w') \<Rightarrow> (Inr s, w')
         | (Inl e, w') \<Rightarrow>
             if is_KeyError e
             then (json_dumps env (failure_outcome (''Missing argument: '' @ exn_str e)), w')
             else if is_Exception e
             then (json_dumps env (failure_outcome (exn_str e)), w')
             else (Inl e, w')))"

section \<open>demo\_llm.py: the command-line orchestrator\<close>

definition newline :: string where
  "newline = [CHR 0x0A]"

definition SYSTEM_PROMPT :: string where
  "SYSTEM_PROMPT =
     ''You are CRUCIBLE, a material science assistant that helps identify materials from spectroscopic data.''
     @ newline @ newline @
     ''Your main capability is identifying materials using Raman spectroscopy data. You have access to a tool called 'identify_material' that requires three parameters:''
     @ newline @
     ''- peak_1: First Raman peak in cm^-1''
     @ newline @
     ''- peak_2: Second Raman peak in cm^-1  ''
     @ newline @
     ''- formation_energy: Formation energy in eV/atom''
     @ newline @ newline @
     ''When users provide this data, use the tool to identify the material. If data is missing, politely ask for it.''
     @ newline @ newline @
     ''Be concise, scientific, and helpful. Explain your identifications briefly.''"

definition system_turn :: turn where
  "system_turn =
     \<lparr>role = System, content = Some SYSTEM_PROMPT, tool_calls = [], tool_call_id = None\<rparr>"

definition user_turn :: "string \<Rightarrow> turn" where
  "user_turn user_message =
     \<lparr>role = User, content = Some user_message, tool_calls = [], tool_call_id = None\<rparr>"

definition assistant_turn :: "string option \<Rightarrow> turn" where
  "assistant_turn assistant_response =
     \<lparr>role = Assistant, content = assistant_response, tool_calls = [], tool_call_id = None\<rparr>"

text \<open>The two turns appended to \<^verbatim>\<open>messages\<close> after a tool call (lines 109 to 118).\<close>

definition invocation_turn :: "tool_call \<Rightarrow> turn" where
  "invocation_turn tc =
     \<lparr>role = Assistant, content = None, tool_calls = [tc], tool_call_id = None\<rparr>"

definition outcome_turn :: "tool_call \<Rightarrow> string \<Rightarrow> turn" where
  "outcome_turn tc tool_result =
     \<lparr>role = Tool, content = Some tool_result, tool_calls = [],
      tool_call_id = Some (call_id tc)\<rparr>"

definition cli_fallback :: string where
  "cli_fallback = ''I had trouble processing that request. Could you rephrase?''"

text \<open>
  \<^verbatim>\<open>for _ in range(3): ...\<close> followed by the \<^verbatim>\<open>return\<close> of line 127, with the
  iterations left to run as the first argument. The result is what \<^verbatim>\<open>chat\<close> returns or
  raises, the stored history and the world. \<^verbatim>\<open>message.get("tool_calls")\<close> is true on a
  non-empty list; only its first element is read.
\<close>

primrec chat_loop ::
  "'w env \<Rightarrow> nat \<Rightarrow> turn list \<Rightarrow> turn list \<Rightarrow> 'w \<Rightarrow> (exn + string option) \<times> turn list \<times> 'w" where
  "chat_loop env 0 messages history w = (Inr (Some cli_fallback), history, w)"
| "chat_loop env (Suc n) messages history w =
     (case llm_complete env w messages of
        (Inl e, w1) \<Rightarrow> (Inl e, history, w1)
      | (Inr message, w1) \<Rightarrow>
          (case msg_tool_calls message of
             tool_call # others \<Rightarrow>
               (case json_loads env (call_arguments tool_call) of
                  Inl e \<Rightarrow> (Inl e, history, w1)
                | Inr tool_args \<Rightarrow>
                    (case execute_tool env (call_name tool_call) tool_args w1 of
                       (Inl e, w2) \<Rightarrow> (Inl e, history, w2)
                     | (Inr tool_result, w2) \<Rightarrow>
                         chat_loop env n
                           (messages @ [invocation_turn tool_call,
                                        outcome_turn tool_call tool_result])
                           history w2))
           | [] \<Rightarrow>
               (Inr (msg_content message),
                history @ [assistant_turn (msg_content message)], w1)))"

definition chat ::
  "'w env \<Rightarrow> string \<Rightarrow> turn list \<Rightarrow> 'w \<Rightarrow> (exn + string option) \<times> turn list \<times> 'w" where
  "chat env user_message history w =
     (let history1 = history @ [user_turn user_message];
          messages = system_turn # history1
      in chat_loop env 3 messages history1 w)"

section \<open>streamlit\_demo.py: the web orchestrator\<close>

record tool_info =
  info_name :: string
  info_args :: pyval
  info_result :: pyval

text \<open>One entry of \<^verbatim>\<open>st.session_state.messages\<close>.\<close>

record st_msg =
  st_role :: role
  st_content :: "string option"
  st_tool_calls :: "tool_info list"

definition st_fallback :: string where
  "st_fallback = ''I had trouble processing that. Could you rephrase?''"

primrec get_response_loop ::
  "'w env \<Rightarrow> nat \<Rightarrow> turn list \<Rightarrow> tool_info list \<Rightarrow> 'w
     \<Rightarrow> (exn + string option \<times> tool_info list) \<times> 'w" where
  "get_response_loop env 0 messages tool_calls_info w =
     (Inr (Some st_fallback, tool_calls_info), w)"
| "get_response_loop env (Suc n) messages tool_calls_info w =
     (case llm_complete env w messages of
        (Inl e, w1) \<Rightarrow> (Inl e, w1)
      | (Inr message, w1) \<Rightarrow>
          (case msg_tool_calls message of
             tool_call # others \<Rightarrow>
               (case json_loads env (call_arguments tool_call) of
                  Inl e \<Rightarrow> (Inl e, w1)
                | Inr tool_args \<Rightarrow>
                    (case execute_tool env (call_name tool_call) tool_args w1 of
                       (Inl e, w2) \<Rightarrow> (Inl e, w2)
                     | (Inr tool_result, w2) \<Rightarrow>
                         (case json_loads env tool_result of
                            Inl e \<Rightarrow> (Inl e, w2)
                          | Inr parsed \<Rightarrow>
                              get_response_loop env n
                                (messages @ [invocation_turn tool_call,
                                             outcome_turn tool_call tool_result])
                                (tool_calls_info @
                                   [\<lparr>info_name = call_name tool_call, info_args = tool_args,
                                     info_result = parsed\<rparr>])
                                w2)))
           | [] \<Rightarrow> (Inr (msg_content message, tool_calls_info), w1)))"

text \<open>Lines 91 to 95: only role and content of the stored user and assistant entries.\<close>

definition build_messages :: "st_msg list \<Rightarrow> string \<Rightarrow> turn list" where
  "build_messages stored user_message =
     system_turn #
     map (\<lambda>msg. \<lparr>role = st_role msg, content = st_content msg, tool_calls = [],
                 tool_call_id = None\<rparr>)
       (filter (\<lambda>msg. st_role msg = User \<or> st_role msg = Assistant) stored)
     @ [user_turn user_message]"

definition get_response ::
  "'w env \<Rightarrow> string \<Rightarrow> st_msg list \<Rightarrow> 'w \<Rightarrow> (exn + string option \<times> tool_info list) \<times> 'w" where
  "get_response env user_message stored w =
     get_response_loop env 3 (build_messages stored user_message) [] w"

text \<open>
  The chat-input block of the page script (lines 208 to 233): the prompt is stored,
  \<^verbatim>\<open>get_response\<close> runs on the stored messages, and whatever it returns is stored as an
  assistant entry (\<^verbatim>\<open>tool_calls if tool_calls else []\<close> is the list itself). An exception
  ends the script run with the prompt stored.
\<close>

definition st_user :: "string \<Rightarrow> st_msg" where
  "st_user prompt = \<lparr>st_role = User, st_content = Some prompt, st_tool_calls = []\<rparr>"

definition st_assistant :: "string option \<Rightarrow> tool_info list \<Rightarrow> st_msg" where
  "st_assistant response calls =
     \<lparr>st_role = Assistant, st_content = response, st_tool_calls = calls\<rparr>"

definition on_chat_input ::
  "'w env \<Rightarrow> string \<Rightarrow> st_msg list \<Rightarrow> 'w \<Rightarrow> (exn + string option) \<times> st_msg list \<times> 'w" where
  "on_chat_input env prompt stored w =
     (let stored1 = stored @ [st_user prompt]
      in case get_response env prompt stored1 w of
           (Inl e, w') \<Rightarrow> (Inl e, stored1, w')
         | (Inr (response, calls), w') \<Rightarrow>
             (Inr response, stored1 @ [st_assistant response calls], w'))"

section \<open>Recording the calls made to the collaborators\<close>

text \<open>
  To speak about which calls a run makes, the collaborators are wrapped so that each
  call appends one event to a log kept in the world: the context and reply of an engine
  call, the arguments and result of a call of the identification function.
\<close>

datatype event =
    LLMCall "turn list" "exn + message"
  | ToolCall pyval pyval pyval "exn + pyval"

definition logged :: "'w env \<Rightarrow> ('w \<times> event list) env" where
  "logged env =
     \<lparr>llm_complete = (\<lambda>wl messages.
        case llm_complete env (fst wl) messages of
          (r, w') \<Rightarrow> (r, (w', snd wl @ [LLMCall messages r]))),
      identify_material = (\<lambda>wl p1 p2 fe.
        case identify_material env (fst wl) p1 p2 fe of
          (r, w') \<Rightarrow> (r, (w', snd wl @ [ToolCall p1 p2 fe r]))),
      json_loads = json_loads env,
      json_encode = json_encode env\<rparr>"

section \<open>Notions used to state the properties\<close>

text \<open>The \<^verbatim>\<open>required\<close> list of \<^verbatim>\<open>TOOL_SCHEMA\<close>.\<close>

definition required_keys :: "string list" where
  "required_keys = [''peak_1'', ''peak_2'', ''formation_energy'']"

text \<open>
  \<open>run_cycles env k messages w\<close>: the first \<open>k\<close> iterations of the loop of \<^verbatim>\<open>chat\<close>
  when each of them is a completed tool cycle (the engine replies with a tool call, its
  arguments parse, the dispatcher returns); the result is the context and the world
  after them. \<open>None\<close> when one of these iterations ends otherwise.
\<close>

primrec run_cycles :: "'w env \<Rightarrow> nat \<Rightarrow> turn list \<Rightarrow> 'w \<Rightarrow> (turn list \<times> 'w) option" where
  "run_cycles env 0 messages w = Some (messages, w)"
| "run_cycles env (Suc k) messages w =
     (case llm_complete env w messages of
        (Inl e, w1) \<Rightarrow> None
      | (Inr message, w1) \<Rightarrow>
          (case msg_tool_calls message of
             tool_call # others \<Rightarrow>
               (case json_loads env (call_arguments tool_call) of
                  Inl e \<Rightarrow> None
                | Inr tool_args \<Rightarrow>
                    (case execute_tool env (call_name tool_call) tool_args w1 of
                       (Inl e, w2) \<Rightarrow> None
                     | (Inr tool_result, w2) \<Rightarrow>
                         run_cycles env k
                           (messages @ [invocation_turn tool_call,
                                        outcome_turn tool_call tool_result]) w2))
           | [] \<Rightarrow> None))"

text \<open>The same for the loop of \<^verbatim>\<open>get_response\<close>, with the tool details it collects.\<close>

primrec st_cycles ::
  "'w env \<Rightarrow> nat \<Rightarrow> turn list \<Rightarrow> tool_info list \<Rightarrow> 'w
     \<Rightarrow> (turn list \<times> tool_info list \<times> 'w) option" where
  "st_cycles env 0 messages infos w = Some (messages, infos, w)"
| "st_cycles env (Suc k) messages infos w =
     (case llm_complete env w messages of
        (Inl e, w1) \<Rightarrow> None
      | (Inr message, w1) \<Rightarrow>
          (case msg_tool_calls message of
             tool_call # others \<Rightarrow>
               (case json_loads env (call_arguments tool_call) of
                  Inl e \<Rightarrow> None
                | Inr tool_args \<Rightarrow>
                    (case execute_tool env (call_name tool_call) tool_args w1 of
                       (Inl e, w2) \<Rightarrow> None
                     | (Inr tool_result, w2) \<Rightarrow>
                         (case json_loads env tool_result of
                            Inl e \<Rightarrow> None
                          | Inr parsed \<Rightarrow>
                              st_cycles env k
                                (messages @ [invocation_turn tool_call,
                                             outcome_turn tool_call tool_result])
                                (infos @
                                   [\<lparr>info_name = call_name tool_call, info_args = tool_args,
                                     info_result = parsed\<rparr>])
                                w2)))
           | [] \<Rightarrow> None))"

text \<open>
  A context is resolved when every turn that carries tool calls is an assistant turn
  with exactly one call, followed at once by a tool turn with that call's identifier,
  and no tool turn stands anywhere else.
\<close>

fun resolved :: "turn list \<Rightarrow> bool" where
  "resolved [] = True"
| "resolved [t] = (tool_calls t = [] \<and> role t \<noteq> Tool)"
| "resolved (t # r # rest) =
     (case tool_calls t of
        [] \<Rightarrow> role t \<noteq> Tool \<and> resolved (r # rest)
      | [tc] \<Rightarrow> role t = Assistant \<and> role r = Tool \<and> tool_calls r = []
                \<and> tool_call_id r = Some (call_id tc) \<and> resolved rest
      | tc # tc' # tcs \<Rightarrow> False)"

text \<open>A turn of the stored history: no tool calls, not a tool turn.\<close>

definition plain :: "turn \<Rightarrow> bool" where
  "plain t = (tool_calls t = [] \<and> role t \<noteq> Tool)"

fun call_resolved :: "event \<Rightarrow> bool" where
  "call_resolved (LLMCall ctx r) = resolved ctx"
| "call_resolved (ToolCall p1 p2 fe r) = True"

text \<open>
  A log is paced when every call of the identification function comes right after an
  engine call: at most one dispatch for each engine reply.
\<close>

fun paced :: "event list \<Rightarrow> bool" where
  "paced [] = True"
| "paced (ToolCall p1 p2 fe x # evs) = False"
| "paced [LLMCall ctx r] = True"
| "paced (LLMCall ctx r # ToolCall p1 p2 fe x # evs) = paced evs"
| "paced (LLMCall ctx r # LLMCall ctx' r' # evs) = paced (LLMCall ctx' r' # evs)"

definition log_ok :: "event list \<Rightarrow> bool" where
  "log_ok evs = (list_all call_resolved evs \<and> paced evs)"

text \<open>The engine with every reply cut down to its first tool call.\<close>

definition first_only :: "'w env \<Rightarrow> 'w env" where
  "first_only env =
     env\<lparr>llm_complete := (\<lambda>w messages.
        case llm_complete env w messages of
          (Inl e, w') \<Rightarrow> (Inl e, w')
        | (Inr message, w') \<Rightarrow>
            (Inr (message\<lparr>msg_tool_calls := take 1 (msg_tool_calls message)\<rparr>), w'))\<rparr>"

section \<open>Stand-ins for the collaborators in closed examples\<close>

text \<open>
  A scripted engine (the world is the list of replies still to come), an identification
  function given as a pure function, and \<^verbatim>\<open>json.loads\<close> and the encoder tabulated on the
  texts and values the examples use.
\<close>

definition ceria_args :: pyval where
  "ceria_args =
     PDict [(''peak_1'', PInt 465), (''peak_2'', PInt 610),
            (''formation_energy'', PFloat (- 11.2))]"

definition ceria_json :: string where
  "ceria_json = ''{\"peak_1\": 465, \"peak_2\": 610, \"formation_energy\": -11.2}''"

definition ceria_result :: pyval where
  "ceria_result = PDict [(''material'', PStr ''CeO2''), (''confidence'', PFloat 0.97)]"

definition ceria_text :: string where
  "ceria_text =
     ''{\"success\": true, \"result\": {\"material\": \"CeO2\", \"confidence\": 0.97}}''"

definition example_loads :: "string \<Rightarrow> exn + pyval" where
  "example_loads s =
     (if s = ceria_json then Inr ceria_args
      else if s = ceria_text then Inr (success_outcome ceria_result)
      else if s = ''[465, 610]'' then Inr (PList [PInt 465, PInt 610])
      else Inl (Exn JSONDecodeError ''Expecting value: line 1 column 1 (char 0)''))"

definition example_encode :: "pyval \<Rightarrow> string" where
  "example_encode v =
     (if v = success_outcome ceria_result then ceria_text
      else case v of
             PDict [(a, PBool False), (b, PStr err)] \<Rightarrow>
               ''{\"success\": false, \"error\": \"'' @ err @ ''\"}''
           | _ \<Rightarrow> ''null'')"

definition ceria_model :: "pyval \<Rightarrow> pyval \<Rightarrow> pyval \<Rightarrow> exn + pyval" where
  "ceria_model p1 p2 fe =
     (if p1 = PInt 465 \<and> p2 = PInt 610 \<and> fe = PFloat (- 11.2) then Inr ceria_result
      else Inl (Exn (OtherException ''ValueError'') ''input outside the training range''))"

definition numpy_result :: pyval where
  "numpy_result = PDict [(''material'', PStr ''CeO2''), (''confidence'', PObj ''float32'')]"

definition numpy_model :: "pyval \<Rightarrow> pyval \<Rightarrow> pyval \<Rightarrow> exn + pyval" where
  "numpy_model p1 p2 fe = Inr numpy_result"

definition interrupted_model :: "pyval \<Rightarrow> pyval \<Rightarrow> pyval \<Rightarrow> exn + pyval" where
  "interrupted_model p1 p2 fe = Inl (Exn (BaseOnly ''KeyboardInterrupt'') [])"

definition scripted ::
  "(pyval \<Rightarrow> pyval \<Rightarrow> pyval \<Rightarrow> exn + pyval) \<Rightarrow> (exn + message) list env" where
  "scripted model =
     \<lparr>llm_complete = (\<lambda>w messages.
        case w of
          [] \<Rightarrow> (Inl (Exn (OtherException ''RuntimeError'') ''no reply left''), [])
        | r # rs \<Rightarrow> (r, rs)),
      identify_material = (\<lambda>w p1 p2 fe. (model p1 p2 fe, w)),
      json_loads = example_loads,
      json_encode = example_encode\<rparr>"

definition ceria_call :: tool_call where
  "ceria_call =
     \<lparr>call_id = ''call_1'', call_name = ''identify_material'', call_arguments = ceria_json\<rparr>"

definition garbled_call :: tool_call where
  "garbled_call =
     \<lparr>call_id = ''call_1'', call_name = ''identify_material'',
      call_arguments = ''peaks 465 and 610''\<rparr>"

definition listed_call :: tool_call where
  "listed_call =
     \<lparr>call_id = ''call_1'', call_name = ''identify_material'',
      call_arguments = ''[465, 610]''\<rparr>"

definition tool_reply :: "tool_call list \<Rightarrow> exn + message" where
  "tool_reply tcs = Inr \<lparr>msg_content = None, msg_tool_calls = tcs\<rparr>"

definition direct_reply :: "string \<Rightarrow> exn + message" where
  "direct_reply text = Inr \<lparr>msg_content = Some text, msg_tool_calls = []\<rparr>"

section \<open>Facts about the model\<close>

lemmas example_defs =
  scripted_def example_loads_def example_encode_def ceria_model_def numpy_model_def
  numpy_result_def interrupted_model_def ceria_call_def garbled_call_def listed_call_def tool_reply_def
  direct_reply_def ceria_args_def ceria_json_def ceria_result_def ceria_text_def
  success_outcome_def failure_outcome_def

lemmas run_defs =
  execute_tool_def try_body_def json_dumps_def example_defs

lemma json_dumps_failure [simp]:
  "json_dumps env (failure_outcome err) = Inr (json_encode env (failure_outcome err))"
  by (simp add: json_dumps_def failure_outcome_def)

lemma json_dumps_success:
  "json_dumps env (success_outcome v) =
     (case first_unserializable v of
        None \<Rightarrow> Inr (json_encode env (success_outcome v))
      | Some t \<Rightarrow> Inl (Exn TypeError (''Object of type '' @ t @ '' is not JSON serializable'')))"
  by (simp add: json_dumps_def success_outcome_def split: option.splits)

lemma logged_simps [simp]:
  "json_loads (logged env) = json_loads env"
  "json_encode (logged env) = json_encode env"
  "llm_complete (logged env) (w, evs) messages =
     (case llm_complete env w messages of (r, w') \<Rightarrow> (r, (w', evs @ [LLMCall messages r])))"
  "identify_material (logged env) (w, evs) p1 p2 fe =
     (case identify_material env w p1 p2 fe of
        (r, w') \<Rightarrow> (r, (w', evs @ [ToolCall p1 p2 fe r])))"
  by (simp_all add: logged_def)

lemma json_dumps_logged [simp]: "json_dumps (logged env) v = json_dumps env v"
  by (simp add: json_dumps_def split: option.splits)

subsection \<open>Skipping completed tool cycles\<close>

lemma chat_loop_skip:
  "run_cycles env k messages w = Some (messages', w') \<Longrightarrow>
   chat_loop env (k + j) messages history w = chat_loop env j messages' history w'"
proof (induction k arbitrary: messages w)
  case 0
  then show ?case by simp
next
  case (Suc k)
  then show ?case
    by (auto split: prod.splits sum.splits list.splits)
qed

lemma get_response_loop_skip:
  "st_cycles env k messages infos w = Some (messages', infos', w') \<Longrightarrow>
   get_response_loop env (k + j) messages infos w =
     get_response_loop env j messages' infos' w'"
proof (induction k arbitrary: messages infos w)
  case 0
  then show ?case by simp
next
  case (Suc k)
  then show ?case
    by (auto split: prod.splits sum.splits list.splits)
qed

lemma chat_after_cycles:
  assumes "run_cycles env k (system_turn # history @ [user_turn u]) w = Some (msgs1, w1)"
    and "k \<le> 3"
  shows "chat env u history w = chat_loop env (3 - k) msgs1 (history @ [user_turn u]) w1"
proof -
  have e: "k + (3 - k) = 3"
    using assms(2) by arith
  have "chat env u history w =
          chat_loop env 3 (system_turn # history @ [user_turn u]) (history @ [user_turn u]) w"
    by (simp add: chat_def Let_def)
  also have "\<dots> =
          chat_loop env (k + (3 - k)) (system_turn # history @ [user_turn u])
            (history @ [user_turn u]) w"
    by (simp only: e)
  also have "\<dots> = chat_loop env (3 - k) msgs1 (history @ [user_turn u]) w1"
    by (rule chat_loop_skip [OF assms(1)])
  finally show ?thesis .
qed

lemma get_response_after_cycles:
  assumes "st_cycles env k (build_messages stored u) [] w = Some (msgs1, infos, w1)"
    and "k \<le> 3"
  shows "get_response env u stored w = get_response_loop env (3 - k) msgs1 infos w1"
proof -
  have e: "k + (3 - k) = 3"
    using assms(2) by arith
  have "get_response env u stored w =
          get_response_loop env (k + (3 - k)) (build_messages stored u) [] w"
    by (simp only: e get_response_def)
  also have "\<dots> = get_response_loop env (3 - k) msgs1 infos w1"
    by (rule get_response_loop_skip [OF assms(1)])
  finally show ?thesis .
qed

lemma left_to_run: "k < 3 \<Longrightarrow> 3 - k = Suc (2 - k)"
  by arith

subsection \<open>What the loop can do to the stored history\<close>

lemma chat_loop_history:
  "chat_loop env n messages history w = (res, history', w') \<Longrightarrow>
   (case res of
      Inl e \<Rightarrow> history' = history
    | Inr a \<Rightarrow> history' = history \<or> history' = history @ [assistant_turn a])"
proof (induction n arbitrary: messages w)
  case 0
  then show ?case by auto
next
  case (Suc n)
  then show ?case
    by (auto split: prod.splits sum.splits list.splits)
qed

subsection \<open>Resolved contexts and paced logs\<close>

lemma resolved_append: "resolved xs \<Longrightarrow> resolved ys \<Longrightarrow> resolved (xs @ ys)"
proof (induction xs rule: resolved.induct)
  case 1
  then show ?case by simp
next
  case (2 t)
  then show ?case by (cases ys) simp_all
next
  case (3 t r rest)
  then show ?case by (auto split: list.splits)
qed

lemma resolved_cycle: "resolved [invocation_turn tc, outcome_turn tc res]"
  by (simp add: invocation_turn_def outcome_turn_def)

lemma resolved_plain: "list_all plain ts \<Longrightarrow> resolved ts"
  by (induction ts rule: resolved.induct) (auto simp: plain_def)

lemma resolved_extend:
  "resolved messages \<Longrightarrow> resolved (messages @ [invocation_turn tc, outcome_turn tc res])"
  by (rule resolved_append [OF _ resolved_cycle])

lemma paced_snoc_llm: "paced evs \<Longrightarrow> paced (evs @ [LLMCall ctx r])"
  by (induction evs rule: paced.induct) auto

lemma paced_snoc_both: "paced evs \<Longrightarrow> paced (evs @ [LLMCall ctx r, ToolCall p1 p2 fe x])"
  by (induction evs rule: paced.induct) auto

lemma execute_tool_logged:
  "execute_tool (logged env) tool_name arguments (w, evs) = (r, (w', evs')) \<Longrightarrow>
   evs' = evs \<or> (\<exists>p1 p2 fe x. evs' = evs @ [ToolCall p1 p2 fe x])"
  by (auto simp add: execute_tool_def try_body_def
      split: if_splits sum.splits prod.splits option.splits)

lemma log_ok_llm: "log_ok evs \<Longrightarrow> resolved ctx \<Longrightarrow> log_ok (evs @ [LLMCall ctx r])"
  by (simp add: log_ok_def paced_snoc_llm)

lemma log_ok_dispatch:
  assumes "log_ok evs" and "resolved ctx"
    and "execute_tool (logged env) tool_name arguments (w, evs @ [LLMCall ctx r]) =
           (x, (w', evs'))"
  shows "log_ok evs'"
  using execute_tool_logged [OF assms(3)] assms(1,2)
  by (auto simp add: log_ok_def paced_snoc_llm paced_snoc_both)

lemma chat_loop_log_ok:
  "log_ok evs \<Longrightarrow> resolved messages \<Longrightarrow>
   chat_loop (logged env) n messages history (w, evs) = (res, history', (w', evs')) \<Longrightarrow>
   log_ok evs'"
proof (induction n arbitrary: messages w evs)
  case 0
  then show ?case by simp
next
  case (Suc n)
  then show ?case
    by (auto split: prod.splits sum.splits list.splits intro: log_ok_llm log_ok_dispatch)
      (metis log_ok_dispatch resolved_extend)
qed

lemma get_response_loop_log_ok:
  "log_ok evs \<Longrightarrow> resolved messages \<Longrightarrow>
   get_response_loop (logged env) n messages infos (w, evs) = (res, (w', evs')) \<Longrightarrow>
   log_ok evs'"
proof (induction n arbitrary: messages infos w evs)
  case 0
  then show ?case by simp
next
  case (Suc n)
  then show ?case
    by (auto split: prod.splits sum.splits list.splits intro: log_ok_llm log_ok_dispatch)
      (metis log_ok_dispatch resolved_extend)
qed

lemma build_messages_resolved: "resolved (build_messages stored u)"
proof -
  have "list_all plain (build_messages stored u)"
    by (auto simp add: build_messages_def plain_def system_turn_def user_turn_def list_all_iff)
  then show ?thesis by (rule resolved_plain)
qed

lemma chat_log_ok:
  assumes "list_all plain history"
  shows "log_ok (snd (snd (snd (chat (logged env) u history (w, [])))))"
proof -
  obtain res history' w' evs' where
    run: "chat_loop (logged env) 3 (system_turn # history @ [user_turn u])
            (history @ [user_turn u]) (w, []) = (res, history', (w', evs'))"
    by (metis prod.exhaust)
  have "list_all plain (system_turn # history @ [user_turn u])"
    using assms by (simp add: plain_def system_turn_def user_turn_def)
  then have ctx: "resolved (system_turn # history @ [user_turn u])"
    by (rule resolved_plain)
  have start: "log_ok []"
    by (simp add: log_ok_def)
  have "log_ok evs'"
    by (rule chat_loop_log_ok [OF start ctx run])
  then show ?thesis
    using run by (simp add: chat_def Let_def)
qed

lemma on_chat_input_log_ok:
  "log_ok (snd (snd (snd (on_chat_input (logged env) u stored (w, [])))))"
proof -
  obtain res w' evs' where
    run: "get_response (logged env) u (stored @ [st_user u]) (w, []) = (res, (w', evs'))"
    by (metis prod.exhaust)
  have start: "log_ok []"
    by (simp add: log_ok_def)
  have "log_ok evs'"
    by (rule get_response_loop_log_ok
        [OF start build_messages_resolved run [unfolded get_response_def]])
  then show ?thesis
    using run by (auto simp add: on_chat_input_def Let_def split: sum.splits prod.splits)
qed

lemma chat_keeps_plain:
  assumes "list_all plain history"
  shows "list_all plain (fst (snd (chat env u history w)))"
proof -
  obtain res history' w' where
    run: "chat_loop env 3 (system_turn # history @ [user_turn u])
            (history @ [user_turn u]) w = (res, history', w')"
    by (metis prod.exhaust)
  have "list_all plain (history @ [user_turn u])"
    using assms by (simp add: plain_def user_turn_def)
  then have "list_all plain history'"
    using chat_loop_history [OF run]
    by (auto simp add: plain_def assistant_turn_def split: sum.splits)
  then show ?thesis
    using run by (simp add: chat_def Let_def)
qed

subsection \<open>Only the first tool call of a reply is read\<close>

lemma first_only_simps [simp]:
  "json_loads (first_only env) = json_loads env"
  "json_encode (first_only env) = json_encode env"
  "identify_material (first_only env) = identify_material env"
  "llm_complete (first_only env) w messages =
     (case llm_complete env w messages of
        (Inl e, w') \<Rightarrow> (Inl e, w')
      | (Inr message, w') \<Rightarrow>
          (Inr (message\<lparr>msg_tool_calls := take 1 (msg_tool_calls message)\<rparr>), w'))"
  by (simp_all add: first_only_def)

lemma json_dumps_first_only [simp]: "json_dumps (first_only env) v = json_dumps env v"
  by (simp add: json_dumps_def split: option.splits)

lemma try_body_first_only [simp]:
  "try_body (first_only env) arguments w = try_body env arguments w"
  by (simp add: try_body_def split: sum.splits prod.splits)

lemma execute_tool_first_only [simp]:
  "execute_tool (first_only env) tool_name arguments w = execute_tool env tool_name arguments w"
  by (simp add: execute_tool_def split: sum.splits prod.splits)

lemma chat_loop_first_only:
  "chat_loop (first_only env) n messages history w = chat_loop env n messages history w"
proof (induction n arbitrary: messages w)
  case 0
  then show ?case by simp
next
  case (Suc n)
  then show ?case
    by (auto split: prod.splits sum.splits list.splits)
qed

lemma get_response_loop_first_only:
  "get_response_loop (first_only env) n messages infos w =
     get_response_loop env n messages infos w"
proof (induction n arbitrary: messages infos w)
  case 0
  then show ?case by simp
next
  case (Suc n)
  then show ?case
    by (auto split: prod.splits sum.splits list.splits)
qed

section \<open>The dispatcher\<close>

text \<open>
  C4. For every tool name other than \<^verbatim>\<open>identify_material\<close> and every arguments value,
  \<^verbatim>\<open>execute_tool\<close> returns the failure outcome whose error text is
  \<^verbatim>\<open>Unknown tool: \<close> followed by that name, and the identification function is not
  called: the log of calls and the world are as before.
\<close>

theorem unknown_tool:
  assumes "tool_name \<noteq> ''identify_material''"
  shows "execute_tool (logged env) tool_name arguments (w, evs) =
           (Inr (json_encode env (failure_outcome (''Unknown tool: '' @ tool_name))), (w, evs))
         \<and> suffix tool_name (''Unknown tool: '' @ tool_name)"
  using assms by (simp add: execute_tool_def suffix_def)

theorem unknown_tool_witness:
  "''lookup_spectrum'' \<noteq> ''identify_material'' \<and>
   execute_tool (logged (scripted ceria_model)) ''lookup_spectrum'' ceria_args ([], []) =
     (Inr ''{\"success\": false, \"error\": \"Unknown tool: lookup_spectrum\"}'', ([], []))"
  using unknown_tool [of "''lookup_spectrum''" "scripted ceria_model" ceria_args "[]" "[]"]
  by (simp add: example_defs)

text \<open>
  C5. For every arguments dict that lacks at least one of \<^verbatim>\<open>peak_1\<close>, \<^verbatim>\<open>peak_2\<close>,
  \<^verbatim>\<open>formation_energy\<close>, \<^verbatim>\<open>execute_tool("identify_material", arguments)\<close> returns the
  failure outcome \<^verbatim>\<open>Missing argument: 'k'\<close> for the first missing key \<open>k\<close> in that
  order, and the identification function is not called.
\<close>

theorem missing_key:
  assumes "map_of kvs ''peak_1'' = None \<or> map_of kvs ''peak_2'' = None
           \<or> map_of kvs ''formation_energy'' = None"
  shows "\<exists>k. find (\<lambda>k. map_of kvs k = None) required_keys = Some k \<and>
           execute_tool (logged env) ''identify_material'' (PDict kvs) (w, evs) =
             (Inr (json_encode env (failure_outcome (''Missing argument: '' @ py_repr k))),
              (w, evs))"
  using assms
  by (auto simp add: execute_tool_def try_body_def required_keys_def split: option.splits)

theorem missing_key_witness:
  "map_of [(''peak_1'', PInt 465), (''peak_2'', PInt 610)] ''formation_energy'' = None \<and>
   execute_tool (logged (scripted ceria_model)) ''identify_material''
     (PDict [(''peak_1'', PInt 465), (''peak_2'', PInt 610)]) ([], []) =
     (Inr (''{\"success\": false, \"error\": \"Missing argument: ''
             @ py_repr ''formation_energy'' @ ''\"}''), ([], []))"
  using missing_key [of "[(''peak_1'', PInt 465), (''peak_2'', PInt 610)]"
      "scripted ceria_model" "[]" "[]"]
  by (simp add: example_defs required_keys_def py_repr_def)

text \<open>
  C6, as amended. For every arguments dict with the three required keys, if the
  identification function returns a value \<open>v\<close> that \<^verbatim>\<open>json.dumps\<close> can encode, then
  \<^verbatim>\<open>execute_tool("identify_material", arguments)\<close> returns the encoding of
  \<^verbatim>\<open>{"success": True, "result": v}\<close>. The witness is the case of the arguments
  \<^verbatim>\<open>{peak_1: 465, peak_2: 610, formation_energy: -11.2}\<close>.
\<close>

theorem success_wrapped:
  assumes "map_of kvs ''peak_1'' = Some p1" and "map_of kvs ''peak_2'' = Some p2"
    and "map_of kvs ''formation_energy'' = Some fe"
    and "identify_material env w p1 p2 fe = (Inr v, w')"
    and "first_unserializable v = None"
  shows "execute_tool env ''identify_material'' (PDict kvs) w =
           (Inr (json_encode env (success_outcome v)), w')"
  using assms
  by (simp add: execute_tool_def try_body_def json_dumps_success)

theorem success_wrapped_witness:
  "identify_material (scripted ceria_model) [] (PInt 465) (PInt 610) (PFloat (- 11.2)) =
     (Inr ceria_result, []) \<and>
   first_unserializable ceria_result = None \<and>
   execute_tool (scripted ceria_model) ''identify_material'' ceria_args [] =
     (Inr (json_encode (scripted ceria_model) (success_outcome ceria_result)), [])"
  using success_wrapped [of "[(''peak_1'', PInt 465), (''peak_2'', PInt 610),
        (''formation_energy'', PFloat (- 11.2))]" "PInt 465" "PInt 610" "PFloat (- 11.2)"
      "scripted ceria_model" "[]" ceria_result "[]"]
  by (simp add: example_defs)

text \<open>
  C6 as stated fails when the returned value holds an object without a JSON
  encoding (here a numpy \<^verbatim>\<open>float32\<close>): \<^verbatim>\<open>json.dumps\<close> raises inside the \<^verbatim>\<open>try\<close>, and
  the handler turns that into a failure outcome.
\<close>

theorem unserializable_result_counterexample:
  "identify_material (scripted numpy_model) [] (PInt 465) (PInt 610) (PFloat (- 11.2)) =
     (Inr numpy_result, []) \<and>
   execute_tool (scripted numpy_model) ''identify_material'' ceria_args [] \<noteq>
     (Inr (json_encode (scripted numpy_model) (success_outcome numpy_result)), []) \<and>
   execute_tool (scripted numpy_model) ''identify_material'' ceria_args [] =
     (Inr ''{\"success\": false, \"error\": \"Object of type float32 is not JSON serializable\"}'',
      [])"
  by (simp add: execute_tool_def try_body_def json_dumps_def example_defs)

text \<open>
  C7, as amended. Every exception of a class deriving from \<^verbatim>\<open>Exception\<close> that the
  identification function raises during dispatch is caught: \<^verbatim>\<open>execute_tool\<close> returns,
  and what it returns is a failure outcome whose error text carries the exception's
  message.
\<close>

theorem exception_caught:
  assumes "map_of kvs ''peak_1'' = Some p1" and "map_of kvs ''peak_2'' = Some p2"
    and "map_of kvs ''formation_energy'' = Some fe"
    and "identify_material env w p1 p2 fe = (Inl e, w')"
    and "is_Exception e"
  shows "\<exists>err. execute_tool env ''identify_material'' (PDict kvs) w =
                 (Inr (json_encode env (failure_outcome err)), w')
               \<and> suffix (exn_str e) err"
  using assms
  by (auto simp add: execute_tool_def try_body_def suffix_def)

theorem exception_caught_witness:
  "identify_material (scripted ceria_model) [] (PInt 1) (PInt 2) (PInt 3) =
     (Inl (Exn (OtherException ''ValueError'') ''input outside the training range''), []) \<and>
   is_Exception (Exn (OtherException ''ValueError'') ''input outside the training range'') \<and>
   (\<exists>err. execute_tool (scripted ceria_model) ''identify_material''
       (PDict [(''peak_1'', PInt 1), (''peak_2'', PInt 2), (''formation_energy'', PInt 3)]) [] =
       (Inr (json_encode (scripted ceria_model) (failure_outcome err)), [])
     \<and> suffix (exn_str (Exn (OtherException ''ValueError'')
                ''input outside the training range'')) err) \<and>
   execute_tool (scripted ceria_model) ''identify_material''
     (PDict [(''peak_1'', PInt 1), (''peak_2'', PInt 2), (''formation_energy'', PInt 3)]) [] =
     (Inr ''{\"success\": false, \"error\": \"input outside the training range\"}'', [])"
proof -
  let ?e = "Exn (OtherException ''ValueError'') ''input outside the training range''"
  have raised: "identify_material (scripted ceria_model) [] (PInt 1) (PInt 2) (PInt 3) =
      (Inl ?e, [])"
    by (simp add: example_defs)
  have caught: "is_Exception ?e"
    by simp
  have run: "execute_tool (scripted ceria_model) ''identify_material''
      (PDict [(''peak_1'', PInt 1), (''peak_2'', PInt 2), (''formation_energy'', PInt 3)]) [] =
      (Inr ''{\"success\": false, \"error\": \"input outside the training range\"}'', [])"
    by (simp add: run_defs)
  show ?thesis
    using exception_caught [of "[(''peak_1'', PInt 1), (''peak_2'', PInt 2),
          (''formation_energy'', PInt 3)]" "PInt 1" "PInt 2" "PInt 3" "scripted ceria_model"
        "[]" ?e "[]", OF _ _ _ raised caught] raised caught run
    by simp
qed

text \<open>
  C7 as stated fails for the exceptions that \<^verbatim>\<open>except Exception\<close> does not
  catch: a \<^verbatim>\<open>KeyboardInterrupt\<close> raised while the identification function runs leaves
  \<^verbatim>\<open>execute_tool\<close> as an exception.
\<close>

theorem base_exception_counterexample:
  "execute_tool (scripted interrupted_model) ''identify_material'' ceria_args [] =
     (Inl (Exn (BaseOnly ''KeyboardInterrupt'') []), [])"
  by (simp add: execute_tool_def try_body_def example_defs)

text \<open>
  C10. The result of \<^verbatim>\<open>execute_tool\<close> depends on the arguments dict only through the
  values bound to \<^verbatim>\<open>peak_1\<close>, \<^verbatim>\<open>peak_2\<close> and \<^verbatim>\<open>formation_energy\<close>: two dicts that agree
  on these three keys give the same result and the same effects, whatever other keys
  they hold.
\<close>

theorem extra_keys_ignored:
  assumes "map_of kvs1 ''peak_1'' = map_of kvs2 ''peak_1''"
    and "map_of kvs1 ''peak_2'' = map_of kvs2 ''peak_2''"
    and "map_of kvs1 ''formation_energy'' = map_of kvs2 ''formation_energy''"
  shows "execute_tool env tool_name (PDict kvs1) w = execute_tool env tool_name (PDict kvs2) w"
  using assms
  by (auto simp add: execute_tool_def try_body_def split: option.splits sum.splits prod.splits)

theorem extra_keys_ignored_witness:
  "execute_tool (scripted ceria_model) ''identify_material''
     (PDict [(''peak_1'', PInt 465), (''units'', PStr ''cm^-1''), (''peak_2'', PInt 610),
             (''formation_energy'', PFloat (- 11.2)), (''shell'', PStr ''rm -rf'')]) [] =
   execute_tool (scripted ceria_model) ''identify_material'' ceria_args []"
  using extra_keys_ignored [of
      "[(''peak_1'', PInt 465), (''units'', PStr ''cm^-1''), (''peak_2'', PInt 610),
        (''formation_energy'', PFloat (- 11.2)), (''shell'', PStr ''rm -rf'')]"
      "[(''peak_1'', PInt 465), (''peak_2'', PInt 610), (''formation_energy'', PFloat (- 11.2))]"
      "scripted ceria_model" "''identify_material''" "[]"]
  by (simp add: ceria_args_def)

section \<open>The orchestrators\<close>

text \<open>
  C1. Whenever the engine answers directly after \<open>k < 3\<close> completed tool cycles,
  \<^verbatim>\<open>chat\<close> returns that answer and the stored history is the history before the call
  with exactly the user turn and the final assistant turn appended, whatever \<open>k\<close> is;
  the turns of the tool cycles are not stored. The same holds for the stored messages of
  the web page, whose assistant entry carries the tool details in its own field.
\<close>

theorem history_grows_by_two:
  "(run_cycles env k (system_turn # history @ [user_turn u]) w = Some (msgs1, w1) \<and> k < 3 \<and>
    llm_complete env w1 msgs1 = (Inr m, w2) \<and> msg_tool_calls m = []
    \<longrightarrow> chat env u history w =
          (Inr (msg_content m),
           history @ [user_turn u, assistant_turn (msg_content m)], w2)) \<and>
   (st_cycles env k (build_messages (stored @ [st_user u]) u) [] w = Some (msgs1', infos, w1') \<and>
    k < 3 \<and> llm_complete env w1' msgs1' = (Inr m', w2') \<and> msg_tool_calls m' = []
    \<longrightarrow> on_chat_input env u stored w =
          (Inr (msg_content m'),
           stored @ [st_user u, st_assistant (msg_content m') infos], w2'))"
proof (intro conjI impI)
  assume a: "run_cycles env k (system_turn # history @ [user_turn u]) w = Some (msgs1, w1) \<and>
    k < 3 \<and> llm_complete env w1 msgs1 = (Inr m, w2) \<and> msg_tool_calls m = []"
  then have "chat env u history w =
      chat_loop env (Suc (2 - k)) msgs1 (history @ [user_turn u]) w1"
    using chat_after_cycles [of env k history u w msgs1 w1] by (simp add: left_to_run)
  with a show "chat env u history w =
      (Inr (msg_content m), history @ [user_turn u, assistant_turn (msg_content m)], w2)"
    by simp
next
  assume a: "st_cycles env k (build_messages (stored @ [st_user u]) u) [] w =
      Some (msgs1', infos, w1') \<and>
    k < 3 \<and> llm_complete env w1' msgs1' = (Inr m', w2') \<and> msg_tool_calls m' = []"
  then have "get_response env u (stored @ [st_user u]) w =
      get_response_loop env (Suc (2 - k)) msgs1' infos w1'"
    using get_response_after_cycles [of env k "stored @ [st_user u]" u w msgs1' infos w1']
    by (simp add: left_to_run)
  with a have "get_response env u (stored @ [st_user u]) w = (Inr (msg_content m', infos), w2')"
    by simp
  then show "on_chat_input env u stored w =
      (Inr (msg_content m'), stored @ [st_user u, st_assistant (msg_content m') infos], w2')"
    by (simp add: on_chat_input_def Let_def)
qed

theorem history_grows_by_two_witness:
  "chat (scripted ceria_model) ''What is this material?''
     [user_turn ''Hello'', assistant_turn (Some ''Hi.'')]
     [tool_reply [ceria_call], direct_reply ''It is ceria.''] =
     (Inr (Some ''It is ceria.''),
      [user_turn ''Hello'', assistant_turn (Some ''Hi.'')]
        @ [user_turn ''What is this material?'', assistant_turn (Some ''It is ceria.'')],
      []) \<and>
   on_chat_input (scripted ceria_model) ''What is this material?''
     [st_user ''Hello'', st_assistant (Some ''Hi.'') []]
     [tool_reply [ceria_call], direct_reply ''It is ceria.''] =
     (Inr (Some ''It is ceria.''),
      [st_user ''Hello'', st_assistant (Some ''Hi.'') []]
        @ [st_user ''What is this material?'',
           st_assistant (Some ''It is ceria.'')
             [\<lparr>info_name = ''identify_material'', info_args = ceria_args,
               info_result = success_outcome ceria_result\<rparr>]],
      [])"
proof -
  let ?env = "scripted ceria_model"
  let ?u = "''What is this material?''"
  let ?h = "[user_turn ''Hello'', assistant_turn (Some ''Hi.'')]"
  let ?s = "[st_user ''Hello'', st_assistant (Some ''Hi.'') []]"
  let ?w = "[tool_reply [ceria_call], direct_reply ''It is ceria.'']"
  let ?m = "\<lparr>msg_content = Some ''It is ceria.'', msg_tool_calls = []\<rparr>"
  let ?c1 = "(system_turn # ?h @ [user_turn ?u])
               @ [invocation_turn ceria_call, outcome_turn ceria_call ceria_text]"
  let ?c2 = "build_messages (?s @ [st_user ?u]) ?u
               @ [invocation_turn ceria_call, outcome_turn ceria_call ceria_text]"
  let ?i = "[\<lparr>info_name = ''identify_material'', info_args = ceria_args,
              info_result = success_outcome ceria_result\<rparr>]"
  have h1: "run_cycles ?env 1 (system_turn # ?h @ [user_turn ?u]) ?w =
      Some (?c1, [direct_reply ''It is ceria.''])"
    by (simp add: run_defs)
  have h2: "st_cycles ?env 1 (build_messages (?s @ [st_user ?u]) ?u) [] ?w =
      Some (?c2, ?i, [direct_reply ''It is ceria.''])"
    by (simp add: run_defs)
  have llm: "llm_complete ?env [direct_reply ''It is ceria.''] msgs = (Inr ?m, [])" for msgs
    by (simp add: scripted_def direct_reply_def)
  show ?thesis
    using history_grows_by_two [of ?env 1 ?h ?u ?w ?c1 "[direct_reply ''It is ceria.'']" ?m "[]"
        ?s ?c2 ?i "[direct_reply ''It is ceria.'']" ?m "[]"] h1 h2 llm
    by simp
qed

text \<open>
  C2, as amended. When three tool cycles complete, the command-line \<^verbatim>\<open>chat\<close> returns its
  fixed fallback string and stores nothing but the user turn. The web page's
  \<^verbatim>\<open>get_response\<close> returns its own fixed fallback string (a different text) and stores
  nothing itself, but the page script then stores that string as an assistant entry,
  with the details of the three tool calls.
\<close>

theorem cap_fallback:
  "(run_cycles env 3 (system_turn # history @ [user_turn u]) w = Some (msgs, w')
    \<longrightarrow> chat env u history w = (Inr (Some cli_fallback), history @ [user_turn u], w')) \<and>
   (st_cycles env 3 (build_messages (stored @ [st_user u]) u) [] w = Some (msgs', infos, w'')
    \<longrightarrow> get_response env u (stored @ [st_user u]) w = (Inr (Some st_fallback, infos), w'') \<and>
        on_chat_input env u stored w =
          (Inr (Some st_fallback),
           stored @ [st_user u, st_assistant (Some st_fallback) infos], w''))"
proof (intro conjI impI)
  assume "run_cycles env 3 (system_turn # history @ [user_turn u]) w = Some (msgs, w')"
  then show "chat env u history w = (Inr (Some cli_fallback), history @ [user_turn u], w')"
    using chat_after_cycles [of env 3 history u w msgs w'] by simp
next
  assume a: "st_cycles env 3 (build_messages (stored @ [st_user u]) u) [] w =
      Some (msgs', infos, w'')"
  then show g: "get_response env u (stored @ [st_user u]) w = (Inr (Some st_fallback, infos), w'')"
    using get_response_after_cycles [of env 3 "stored @ [st_user u]" u w msgs' infos w'']
    by simp
  then show "on_chat_input env u stored w =
      (Inr (Some st_fallback), stored @ [st_user u, st_assistant (Some st_fallback) infos], w'')"
    by (simp add: on_chat_input_def Let_def)
qed

theorem cap_fallback_witness:
  "chat (scripted ceria_model) ''q'' []
     [tool_reply [ceria_call], tool_reply [ceria_call], tool_reply [ceria_call]] =
     (Inr (Some ''I had trouble processing that request. Could you rephrase?''),
      [user_turn ''q''], []) \<and>
   on_chat_input (scripted ceria_model) ''q'' []
     [tool_reply [ceria_call], tool_reply [ceria_call], tool_reply [ceria_call]] =
     (Inr (Some ''I had trouble processing that. Could you rephrase?''),
      [st_user ''q'',
       st_assistant (Some ''I had trouble processing that. Could you rephrase?'')
         (replicate 3 \<lparr>info_name = ''identify_material'', info_args = ceria_args,
                        info_result = success_outcome ceria_result\<rparr>)],
      [])"
proof -
  let ?env = "scripted ceria_model"
  let ?w = "[tool_reply [ceria_call], tool_reply [ceria_call], tool_reply [ceria_call]]"
  let ?cycle = "[invocation_turn ceria_call, outcome_turn ceria_call ceria_text]"
  let ?i = "replicate 3 \<lparr>info_name = ''identify_material'', info_args = ceria_args,
                         info_result = success_outcome ceria_result\<rparr>"
  have h1: "run_cycles ?env 3 (system_turn # [] @ [user_turn ''q'']) ?w =
      Some ([system_turn, user_turn ''q''] @ ?cycle @ ?cycle @ ?cycle, [])"
    by (simp add: run_defs numeral_3_eq_3)
  have h2: "st_cycles ?env 3 (build_messages ([] @ [st_user ''q'']) ''q'') [] ?w =
      Some (build_messages [st_user ''q''] ''q'' @ ?cycle @ ?cycle @ ?cycle, ?i, [])"
    by (simp add: run_defs numeral_3_eq_3)
  show ?thesis
    using cap_fallback [of ?env "[]" "''q''" ?w
        "[system_turn, user_turn ''q''] @ ?cycle @ ?cycle @ ?cycle" "[]" "[]"
        "build_messages [st_user ''q''] ''q'' @ ?cycle @ ?cycle @ ?cycle" ?i "[]"] h1 h2
    by (simp add: cli_fallback_def st_fallback_def)
qed

text \<open>
  C2 as stated fails on the web page: after three tool cycles the stored
  messages end with an assistant entry, and the string is not the one \<^verbatim>\<open>chat\<close> returns.
\<close>

theorem cap_fallback_counterexample:
  "fst (on_chat_input (scripted ceria_model) ''q'' []
          [tool_reply [ceria_call], tool_reply [ceria_call], tool_reply [ceria_call]]) =
     Inr (Some st_fallback) \<and>
   map st_role (fst (snd (on_chat_input (scripted ceria_model) ''q'' []
          [tool_reply [ceria_call], tool_reply [ceria_call], tool_reply [ceria_call]]))) =
     [User, Assistant] \<and>
   map st_content (fst (snd (on_chat_input (scripted ceria_model) ''q'' []
          [tool_reply [ceria_call], tool_reply [ceria_call], tool_reply [ceria_call]]))) =
     [Some ''q'', Some st_fallback] \<and>
   st_fallback \<noteq> cli_fallback"
  by (simp add: on_chat_input_def get_response_def build_messages_def Let_def run_defs
      numeral_3_eq_3 st_user_def st_assistant_def st_fallback_def cli_fallback_def)

text \<open>
  C3. The claim asks that a tool call whose raw arguments do not parse yields a failure
  outcome, without the identification function being invoked and without a fault
  leaving the conversation loop. The code does not do this: \<^verbatim>\<open>json.loads\<close> is called
  outside any \<^verbatim>\<open>try\<close>, so on the arguments text \<^verbatim>\<open>peaks 465 and 610\<close> the decoder's
  exception leaves \<^verbatim>\<open>chat\<close> (first equation; the function is indeed not invoked). The
  neighbouring argument errors are recovered as the claim describes: on the text
  \<^verbatim>\<open>[465, 610]\<close>, which parses but is no mapping, the dispatcher returns a failure
  outcome, the loop goes on and \<^verbatim>\<open>chat\<close> returns the engine's next answer (second
  equation).
\<close>

theorem parse_failure_crashes:
  "chat (logged (scripted ceria_model)) ''q'' []
     ([tool_reply [garbled_call], direct_reply ''unused''], []) =
     (Inl (Exn JSONDecodeError ''Expecting value: line 1 column 1 (char 0)''),
      [user_turn ''q''],
      ([direct_reply ''unused''],
       [LLMCall [system_turn, user_turn ''q''] (tool_reply [garbled_call])])) \<and>
   chat (logged (scripted ceria_model)) ''q'' []
     ([tool_reply [listed_call], direct_reply ''Please give the three values.''], []) =
     (Inr (Some ''Please give the three values.''),
      [user_turn ''q'', assistant_turn (Some ''Please give the three values.'')],
      ([],
       [LLMCall [system_turn, user_turn ''q''] (tool_reply [listed_call]),
        LLMCall [system_turn, user_turn ''q'', invocation_turn listed_call,
                 outcome_turn listed_call
                   ''{\"success\": false, \"error\": \"list indices must be integers or slices, not str\"}'']
          (direct_reply ''Please give the three values.'')]))"
  by (simp add: chat_def Let_def numeral_3_eq_3 run_defs)

text \<open>
  C8. If the engine raises, on the first call or after any number of completed tool
  cycles, \<^verbatim>\<open>chat\<close> raises the same exception and the stored history is the history
  before the call with exactly the user turn appended; whenever \<^verbatim>\<open>chat\<close> raises, for
  whatever reason, that is the stored history.
\<close>

theorem engine_failure_propagates:
  "(run_cycles env k (system_turn # history @ [user_turn u]) w = Some (msgs1, w1) \<and> k < 3 \<and>
    llm_complete env w1 msgs1 = (Inl e, w2)
    \<longrightarrow> chat env u history w = (Inl e, history @ [user_turn u], w2)) \<and>
   (chat env u history w = (Inl e', history', w') \<longrightarrow> history' = history @ [user_turn u])"
proof (intro conjI impI)
  assume a: "run_cycles env k (system_turn # history @ [user_turn u]) w = Some (msgs1, w1) \<and>
    k < 3 \<and> llm_complete env w1 msgs1 = (Inl e, w2)"
  then have "chat env u history w =
      chat_loop env (Suc (2 - k)) msgs1 (history @ [user_turn u]) w1"
    using chat_after_cycles [of env k history u w msgs1 w1] by (simp add: left_to_run)
  with a show "chat env u history w = (Inl e, history @ [user_turn u], w2)"
    by simp
next
  assume "chat env u history w = (Inl e', history', w')"
  then have "chat_loop env 3 (system_turn # history @ [user_turn u])
      (history @ [user_turn u]) w = (Inl e', history', w')"
    by (simp add: chat_def Let_def)
  from chat_loop_history [OF this] show "history' = history @ [user_turn u]"
    by simp
qed

theorem engine_failure_propagates_witness:
  "chat (scripted ceria_model) ''q'' [user_turn ''Hello'', assistant_turn (Some ''Hi.'')]
     [tool_reply [ceria_call], Inl (Exn (OtherException ''RuntimeError'') ''llama_decode failed'')] =
     (Inl (Exn (OtherException ''RuntimeError'') ''llama_decode failed''),
      [user_turn ''Hello'', assistant_turn (Some ''Hi.'')] @ [user_turn ''q''], [])"
proof -
  let ?env = "scripted ceria_model"
  let ?h = "[user_turn ''Hello'', assistant_turn (Some ''Hi.'')]"
  let ?e = "Exn (OtherException ''RuntimeError'') ''llama_decode failed''"
  let ?c1 = "(system_turn # ?h @ [user_turn ''q''])
               @ [invocation_turn ceria_call, outcome_turn ceria_call ceria_text]"
  have h1: "run_cycles ?env 1 (system_turn # ?h @ [user_turn ''q''])
      [tool_reply [ceria_call], Inl ?e] = Some (?c1, [Inl ?e])"
    by (simp add: run_defs)
  have h3: "llm_complete ?env [Inl ?e] ?c1 = (Inl ?e, [])"
    by (simp add: scripted_def)
  show ?thesis
    using engine_failure_propagates [of ?env 1 ?h "''q''" "[tool_reply [ceria_call], Inl ?e]"
        ?c1 "[Inl ?e]" ?e "[]" ?e
        "[user_turn ''Hello'', assistant_turn (Some ''Hi.'')] @ [user_turn ''q'']" "[]"] h1 h3
    by simp
qed

text \<open>
  C9. Starting from a stored history of plain turns (which is what \<^verbatim>\<open>chat\<close> leaves
  behind), every context that \<^verbatim>\<open>chat\<close> passes to the engine is resolved: each assistant
  turn with a tool call has exactly one call and is followed at once by the tool turn
  with that call's identifier. The identification function is called at most once
  after each engine reply, and only the first tool call of a reply is read: cutting
  every reply down to its first tool call changes nothing. The same holds for the web
  page, for any stored messages.
\<close>

theorem invocations_resolved:
  assumes "list_all plain history"
  shows "list_all call_resolved (snd (snd (snd (chat (logged env) u history (w, []))))) \<and>
         paced (snd (snd (snd (chat (logged env) u history (w, []))))) \<and>
         list_all plain (fst (snd (chat env u history w))) \<and>
         chat (first_only env) u history w = chat env u history w \<and>
         list_all call_resolved (snd (snd (snd (on_chat_input (logged env) u stored (w, []))))) \<and>
         paced (snd (snd (snd (on_chat_input (logged env) u stored (w, []))))) \<and>
         on_chat_input (first_only env) u stored w = on_chat_input env u stored w"
proof -
  have "log_ok (snd (snd (snd (chat (logged env) u history (w, [])))))"
    using assms by (rule chat_log_ok)
  moreover have "log_ok (snd (snd (snd (on_chat_input (logged env) u stored (w, [])))))"
    by (rule on_chat_input_log_ok)
  moreover have "list_all plain (fst (snd (chat env u history w)))"
    using assms by (rule chat_keeps_plain)
  moreover have "chat (first_only env) u history w = chat env u history w"
    by (simp add: chat_def chat_loop_first_only)
  moreover have "on_chat_input (first_only env) u stored w = on_chat_input env u stored w"
    by (simp add: on_chat_input_def get_response_def get_response_loop_first_only)
  ultimately show ?thesis
    by (simp add: log_ok_def)
qed

theorem invocations_resolved_witness:
  "list_all plain [user_turn ''Hello'', assistant_turn (Some ''Hi.'')] \<and>
   snd (snd (snd (chat (logged (scripted ceria_model)) ''q''
     [user_turn ''Hello'', assistant_turn (Some ''Hi.'')]
     ([tool_reply [ceria_call, garbled_call], direct_reply ''It is ceria.''], [])))) =
     [LLMCall [system_turn, user_turn ''Hello'', assistant_turn (Some ''Hi.''), user_turn ''q'']
        (tool_reply [ceria_call, garbled_call]),
      ToolCall (PInt 465) (PInt 610) (PFloat (- 11.2)) (Inr ceria_result),
      LLMCall [system_turn, user_turn ''Hello'', assistant_turn (Some ''Hi.''), user_turn ''q'',
               invocation_turn ceria_call, outcome_turn ceria_call ceria_text]
        (direct_reply ''It is ceria.'')] \<and>
   list_all call_resolved (snd (snd (snd (chat (logged (scripted ceria_model)) ''q''
     [user_turn ''Hello'', assistant_turn (Some ''Hi.'')]
     ([tool_reply [ceria_call, garbled_call], direct_reply ''It is ceria.''], []))))) \<and>
   paced (snd (snd (snd (chat (logged (scripted ceria_model)) ''q''
     [user_turn ''Hello'', assistant_turn (Some ''Hi.'')]
     ([tool_reply [ceria_call, garbled_call], direct_reply ''It is ceria.''], [])))))"
proof -
  have h: "list_all plain [user_turn ''Hello'', assistant_turn (Some ''Hi.'')]"
    by (simp add: plain_def user_turn_def assistant_turn_def)
  have run: "snd (snd (snd (chat (logged (scripted ceria_model)) ''q''
     [user_turn ''Hello'', assistant_turn (Some ''Hi.'')]
     ([tool_reply [ceria_call, garbled_call], direct_reply ''It is ceria.''], [])))) =
     [LLMCall [system_turn, user_turn ''Hello'', assistant_turn (Some ''Hi.''), user_turn ''q'']
        (tool_reply [ceria_call, garbled_call]),
      ToolCall (PInt 465) (PInt 610) (PFloat (- 11.2)) (Inr ceria_result),
      LLMCall [system_turn, user_turn ''Hello'', assistant_turn (Some ''Hi.''), user_turn ''q'',
               invocation_turn ceria_call, outcome_turn ceria_call ceria_text]
        (direct_reply ''It is ceria.'')]"
    by (simp add: chat_def Let_def numeral_3_eq_3 run_defs)
  show ?thesis
    using invocations_resolved [OF h, of "scripted ceria_model" "''q''"
        "[tool_reply [ceria_call, garbled_call], direct_reply ''It is ceria.'']"] h run
    by simp
qed

end
